theory Spec2Isabelle
  imports Complex_Main
begin

section \<open>Strings and numbers of the frontend\<close>

text \<open>
  A TypeScript string is modelled as a \<^typ>\<open>string\<close>, one \<^typ>\<open>char\<close> per code unit.
  The code below only tells decimal digits, the hyphen and everything else apart, and counts
  code units, so nothing depends on the alphabet being larger. A \<open>number\<close> that reaches the
  code (typed into a numeric input, or read from a JSON response) is a finite value; it is
  modelled as a \<^typ>\<open>rat\<close>, which holds every finite double exactly for the comparisons
  with the constants \<open>0\<close>, \<open>1\<close> and \<open>1900\<close> that the code makes.
\<close>

definition is_digit :: "char \<Rightarrow> bool" where
  \<comment> \<open>the class \<open>\d\<close> of a regular expression without the unicode flag\<close>
  "is_digit c = (c \<in> set ''0123456789'')"

definition is_letter :: "char \<Rightarrow> bool" where
  "is_letter c =
     (c \<in> set ''abcdefghijklmnopqrstuvwxyz'' \<or> c \<in> set ''ABCDEFGHIJKLMNOPQRSTUVWXYZ'')"

section \<open>utils/formatters.ts: formatCep\<close>

text \<open>
  \<^verbatim>\<open>cep.replace(/\D/g, '')\<close>: every code unit that is not a digit is removed.
\<close>

definition strip_non_digits :: "string \<Rightarrow> string" where
  "strip_non_digits s = filter is_digit s"

text \<open>
  \<^verbatim>\<open>.replace(/^(\d{5})(\d)/, '$1-$2')\<close>: when the string starts with six digits, a
  hyphen is put between the fifth and the sixth; any other string is returned as it is.
\<close>

definition insert_hyphen :: "string \<Rightarrow> string" where
  "insert_hyphen s =
     (if 6 \<le> length s \<and> list_all is_digit (take 6 s)
      then take 5 s @ ''-'' @ drop 5 s
      else s)"

text \<open>
  The argument is \<open>string | undefined | null\<close>: \<open>None\<close> stands for \<open>undefined\<close> and
  \<open>null\<close>. \<^verbatim>\<open>!cep\<close> also holds of the empty string. \<^verbatim>\<open>.slice(0, 9)\<close> keeps the
  first nine code units.
\<close>

definition formatCep :: "string option \<Rightarrow> string" where
  "formatCep cep =
     (case cep of
        None \<Rightarrow> []
      | Some s \<Rightarrow>
          if s = [] then []
          else take 9 (insert_hyphen (strip_non_digits s)))"

section \<open>types/insurance.ts and validation/insuranceSchema.ts: the data\<close>

record Address =
  street :: string
  number :: string
  complement :: "string option"
  neighborhood :: string
  city :: string
  state :: string
  postal_code :: string
  country :: string

text \<open>
  \<open>InsuranceCalculationResponseData\<close>. The fields \<open>id\<close> and \<open>broker_fee\<close> are named
  \<open>calc_id\<close> and \<open>calc_broker_fee\<close> here, since \<open>id\<close> is the identity function of HOL
  and \<open>broker_fee\<close> is also a field of the form data.
\<close>

record InsuranceCalculationResponseData =
  calc_id :: string
  timestamp :: string
  car_make :: string
  car_model :: string
  car_year :: rat
  car_value :: rat
  applied_rate :: rat
  calculated_premium :: rat
  deductible_value :: rat
  policy_limit :: rat
  gis_adjustment :: "rat option"
  calc_broker_fee :: rat
  registration_location :: "Address option"

text \<open>
  \<open>InsuranceBaseFormData\<close>, the type inferred from \<open>insuranceBaseSchema\<close>. Its field
  \<open>make\<close> and \<open>value\<close> are named \<open>form_make\<close> and \<open>form_value\<close>
  (\<open>make\<close> is the constructor function that every record has).
\<close>

record InsuranceBaseFormData =
  form_make :: string
  model :: string
  year :: rat
  form_value :: rat
  deductible_percentage :: rat
  broker_fee :: rat

section \<open>pages/InsurancePage: opening a calculation for editing\<close>

definition mapResponseToBaseFormData ::
  "InsuranceCalculationResponseData option \<Rightarrow> InsuranceBaseFormData option" where
  "mapResponseToBaseFormData calc =
     (case calc of
        None \<Rightarrow> None
      | Some c \<Rightarrow>
          (let defaultDeductible = 10 / 100 in
           Some \<lparr> form_make = car_make c,
                  model = car_model c,
                  year = car_year c,
                  form_value = car_value c,
                  deductible_percentage = defaultDeductible,
                  broker_fee = calc_broker_fee c \<rparr>))"

text \<open>
  The part of the page's state that \<open>handleOpenModal\<close> writes, and \<open>handleOpenModal\<close>
  itself: the form is pre-filled with \<open>mapResponseToBaseFormData(calculation)\<close>.
\<close>

record ModalState =
  editingDataBase :: "InsuranceBaseFormData option"
  editingCalculationId :: "string option"
  submitError :: "string option"
  isModalOpen :: bool

definition handleOpenModal ::
  "InsuranceCalculationResponseData option \<Rightarrow> ModalState \<Rightarrow> ModalState" where
  "handleOpenModal calculation st =
     st \<lparr> editingDataBase := mapResponseToBaseFormData calculation,
          editingCalculationId := map_option calc_id calculation,
          submitError := None,
          isModalOpen := True \<rparr>"

section \<open>validation/insuranceSchema.ts: the zod schemas\<close>

text \<open>
  \<open>safeParse\<close> returns the parsed data or the list of issues. An issue is kept as its path
  (the field) and its zod code; the messages of the source are left out. zod runs every
  check of a field and collects the issues, so a value can raise several.
\<close>

datatype ZodIssue = ZodIssue string string

definition z_min_length :: "string \<Rightarrow> nat \<Rightarrow> string \<Rightarrow> ZodIssue list" where
  \<comment> \<open>\<open>z.string().min(n)\<close>\<close>
  "z_min_length path n s = (if length s < n then [ZodIssue path ''too_small''] else [])"

definition z_length :: "string \<Rightarrow> nat \<Rightarrow> string \<Rightarrow> ZodIssue list" where
  \<comment> \<open>\<open>z.string().length(n)\<close>\<close>
  "z_length path n s =
     (if length s < n then [ZodIssue path ''too_small'']
      else if n < length s then [ZodIssue path ''too_big'']
      else [])"

definition is_integer :: "rat \<Rightarrow> bool" where
  \<comment> \<open>\<open>Number.isInteger\<close>, behind \<open>.int()\<close>\<close>
  "is_integer r = (of_int \<lfloor>r\<rfloor> = r)"

text \<open>
  The values the form hands to \<open>insuranceBaseSchema\<close>. The text fields are strings. A
  numeric field is \<open>None\<close> when the input is empty (\<open>undefined\<close>) or was parsed to \<open>NaN\<close>:
  \<open>z.number()\<close> refuses both as a type error before any other check.
\<close>

record BaseFormInput =
  in_make :: string
  in_model :: string
  in_year :: "rat option"
  in_value :: "rat option"
  in_deductible_percentage :: "rat option"
  in_broker_fee :: "rat option"

definition year_issues :: "int \<Rightarrow> rat option \<Rightarrow> ZodIssue list" where
  \<comment> \<open>\<open>z.number().int().min(1900).max(currentYear + 1)\<close>\<close>
  "year_issues currentYear y =
     (case y of
        None \<Rightarrow> [ZodIssue ''year'' ''invalid_type'']
      | Some r \<Rightarrow>
          (if is_integer r then [] else [ZodIssue ''year'' ''invalid_type'']) @
          (if r < 1900 then [ZodIssue ''year'' ''too_small''] else []) @
          (if of_int (currentYear + 1) < r then [ZodIssue ''year'' ''too_big''] else []))"

definition value_issues :: "rat option \<Rightarrow> ZodIssue list" where
  \<comment> \<open>\<open>z.number().positive()\<close>\<close>
  "value_issues v =
     (case v of
        None \<Rightarrow> [ZodIssue ''value'' ''invalid_type'']
      | Some r \<Rightarrow> if r \<le> 0 then [ZodIssue ''value'' ''too_small''] else [])"

definition deductible_percentage_issues :: "rat option \<Rightarrow> ZodIssue list" where
  \<comment> \<open>\<open>z.number().min(0).max(1)\<close>\<close>
  "deductible_percentage_issues d =
     (case d of
        None \<Rightarrow> [ZodIssue ''deductible_percentage'' ''invalid_type'']
      | Some r \<Rightarrow>
          (if r < 0 then [ZodIssue ''deductible_percentage'' ''too_small''] else []) @
          (if 1 < r then [ZodIssue ''deductible_percentage'' ''too_big''] else []))"

definition broker_fee_issues :: "rat option \<Rightarrow> ZodIssue list" where
  \<comment> \<open>\<open>z.number().min(0)\<close>\<close>
  "broker_fee_issues b =
     (case b of
        None \<Rightarrow> [ZodIssue ''broker_fee'' ''invalid_type'']
      | Some r \<Rightarrow> if r < 0 then [ZodIssue ''broker_fee'' ''too_small''] else [])"

text \<open>
  \<open>insuranceBaseSchema.safeParse\<close>. \<open>currentYear\<close> is \<open>new Date().getFullYear()\<close>, read
  once when the module is loaded; it is a parameter here.
\<close>

definition insuranceBaseSchema ::
  "int \<Rightarrow> BaseFormInput \<Rightarrow> ZodIssue list + InsuranceBaseFormData" where
  "insuranceBaseSchema currentYear inp =
     (let issues =
            z_min_length ''make'' 1 (in_make inp) @
            z_min_length ''model'' 1 (in_model inp) @
            year_issues currentYear (in_year inp) @
            value_issues (in_value inp) @
            deductible_percentage_issues (in_deductible_percentage inp) @
            broker_fee_issues (in_broker_fee inp)
      in case (in_year inp, in_value inp, in_deductible_percentage inp, in_broker_fee inp) of
           (Some y, Some v, Some d, Some b) \<Rightarrow>
             if issues = []
             then Inr \<lparr> form_make = in_make inp, model = in_model inp, year = y,
                        form_value = v, deductible_percentage = d, broker_fee = b \<rparr>
             else Inl issues
         | _ \<Rightarrow> Inl issues)"

text \<open>
  \<^verbatim>\<open>/^\d{5}-?\d{3}$/\<close>: five digits, an optional hyphen, three digits, and nothing else.
  After the five digits a hyphen is consumed when it is there; leaving it unconsumed
  cannot match, since a hyphen is not a digit.
\<close>

definition cep_regex :: "string \<Rightarrow> bool" where
  "cep_regex s =
     (5 \<le> length s \<and> list_all is_digit (take 5 s) \<and>
      (let r = drop 5 s;
           r' = (case r of [] \<Rightarrow> r | c # cs \<Rightarrow> if c = CHR ''-'' then cs else r)
       in length r' = 3 \<and> list_all is_digit r'))"

definition postal_code_issues :: "string \<Rightarrow> ZodIssue list" where
  \<comment> \<open>\<open>z.string().min(8).regex(...)\<close>\<close>
  "postal_code_issues s =
     z_min_length ''postal_code'' 8 s @
     (if cep_regex s then [] else [ZodIssue ''postal_code'' ''invalid_string''])"

text \<open>
  \<open>addressSchema.safeParse\<close>. \<open>complement\<close> is optional and unchecked. \<open>country\<close> has the
  default \<open>BR\<close> for a missing value; the form always holds a string there.
\<close>

definition addressSchema :: "Address \<Rightarrow> ZodIssue list + Address" where
  "addressSchema a =
     (let issues =
            z_min_length ''street'' 1 (street a) @
            z_min_length ''number'' 1 (number a) @
            z_min_length ''neighborhood'' 1 (neighborhood a) @
            z_min_length ''city'' 1 (city a) @
            z_length ''state'' 2 (state a) @
            postal_code_issues (postal_code a) @
            z_length ''country'' 2 (country a)
      in if issues = [] then Inr a else Inl issues)"

definition addressSchema_pick_postal_code :: "Address \<Rightarrow> ZodIssue list + string" where
  \<comment> \<open>\<open>addressSchema.pick({ postal_code: true }).safeParse\<close>\<close>
  "addressSchema_pick_postal_code a =
     (let issues = postal_code_issues (postal_code a)
      in if issues = [] then Inr (postal_code a) else Inl issues)"

section \<open>components/InsuranceForm: submitting the form\<close>

text \<open>
  \<open>InsuranceCalculationRequestData\<close>, the request handed to \<open>onSubmit\<close>; its fields carry
  the prefix \<open>req_\<close>.
\<close>

record InsuranceCalculationRequestData =
  req_make :: string
  req_model :: string
  req_year :: rat
  req_value :: rat
  req_deductible_percentage :: rat
  req_broker_fee :: rat
  req_registration_location :: "Address option"

text \<open>
  \<open>validateAddress\<close> returns \<open>isValid\<close> and the errors per field (kept as issues; a missing
  address is the issue \<open>required\<close> on \<open>postal_code\<close>). When the postal code alone fails
  only its first issue is reported.
\<close>

definition validateAddress :: "bool \<Rightarrow> Address option \<Rightarrow> bool \<times> ZodIssue list" where
  "validateAddress includeAddress addressData =
     (if \<not> includeAddress then (True, [])
      else case addressData of
        None \<Rightarrow> (False, [ZodIssue ''postal_code'' ''required''])
      | Some a \<Rightarrow>
          (case addressSchema_pick_postal_code a of
             Inl errs \<Rightarrow> (False, take 1 errs)
           | Inr _ \<Rightarrow>
               (case addressSchema a of
                  Inl errs \<Rightarrow> (False, errs)
                | Inr _ \<Rightarrow> (True, []))))"

text \<open>
  \<open>handlePrepareSubmit\<close>: \<open>Inl\<close> is the early return (the address errors are shown and
  \<open>onSubmit\<close> is not called), \<open>Inr\<close> the request passed to \<open>onSubmit\<close>. An empty complement
  becomes \<open>undefined\<close>, and the postal code is sent without its non-digits.
\<close>

definition handlePrepareSubmit ::
  "bool \<Rightarrow> Address option \<Rightarrow> InsuranceBaseFormData \<Rightarrow>
     ZodIssue list + InsuranceCalculationRequestData" where
  "handlePrepareSubmit includeAddress addressData baseData =
     (let validationResult = validateAddress includeAddress addressData in
      if \<not> fst validationResult then Inl (snd validationResult)
      else
        (let addressRequestData =
               (if includeAddress then
                  (case addressData of
                     None \<Rightarrow> None
                   | Some a \<Rightarrow>
                       Some \<lparr> street = street a,
                              number = number a,
                              complement =
                                (case complement a of
                                   None \<Rightarrow> None
                                 | Some c \<Rightarrow> if c = [] then None else Some c),
                              neighborhood = neighborhood a,
                              city = city a,
                              state = state a,
                              postal_code = strip_non_digits (postal_code a),
                              country = country a \<rparr>)
                else None)
         in Inr \<lparr> req_make = form_make baseData,
                   req_model = model baseData,
                   req_year = year baseData,
                   req_value = form_value baseData,
                   req_deductible_percentage = deductible_percentage baseData,
                   req_broker_fee = broker_fee baseData,
                   req_registration_location = addressRequestData \<rparr>))"

text \<open>
  \<open>handleBaseSubmit(handlePrepareSubmit)\<close>: the form library runs the resolver of
  \<open>insuranceBaseSchema\<close> on the form's values and calls \<open>handlePrepareSubmit\<close> with the
  parsed data only when the schema accepts them.
\<close>

definition handleBaseSubmit ::
  "int \<Rightarrow> BaseFormInput \<Rightarrow> bool \<Rightarrow> Address option \<Rightarrow>
     ZodIssue list + InsuranceCalculationRequestData" where
  "handleBaseSubmit currentYear inp includeAddress addressData =
     (case insuranceBaseSchema currentYear inp of
        Inl issues \<Rightarrow> Inl issues
      | Inr baseData \<Rightarrow> handlePrepareSubmit includeAddress addressData baseData)"

text \<open>
  The constraints on an address in the words of the specification: street, number,
  neighborhood and city non-empty, state exactly two letters, postal code exactly eight
  digits, country two letters.
\<close>

definition spec_address_constraints :: "Address \<Rightarrow> bool" where
  "spec_address_constraints a =
     (street a \<noteq> [] \<and> number a \<noteq> [] \<and> neighborhood a \<noteq> [] \<and> city a \<noteq> [] \<and>
      length (state a) = 2 \<and> list_all is_letter (state a) \<and>
      length (postal_code a) = 8 \<and> list_all is_digit (postal_code a) \<and>
      length (country a) = 2 \<and> list_all is_letter (country a))"

section \<open>The calculation core of the API\<close>

text \<open>
  The Python sources of the API (\<open>api/app\<close>: settings, value objects, the
  \<open>InsuranceCalculator\<close>) are not among the files of the repository; its README and the
  specification describe them. The definitions of this section are therefore modelled
  from the specification, each marked as such.

  Amounts are fixed-point decimals: a \<open>Money\<close> is a number of cents (two decimal digits), a
  \<open>Percentage\<close> a number of units of \<open>10\<^sup>-\<^sup>5\<close> (five decimal digits), so \<open>0.005\<close> is \<open>500\<close>
  and \<open>1.0\<close> is \<open>100000\<close>.
\<close>

type_synonym Money = int

type_synonym Percentage = int

text \<open>
  Modelled from the spec: the rounding of \<open>Money\<close> arithmetic (\<section>3, "2-digit rounding
  (round-half-up) ... at each step"); the Money class is missing. \<open>round_half_up_div n d\<close>
  is \<open>n / d\<close> rounded to the nearest integer, a half going up.
\<close>

definition round_half_up_div :: "int \<Rightarrow> int \<Rightarrow> int" where
  "round_half_up_div n d = (2 * n + d) div (2 * d)"

text \<open>
  Modelled from the spec: \<open>Money \<times> Percentage\<close> (\<section>3), rounded to cents; the Money class
  is missing.
\<close>

definition money_times :: "Money \<Rightarrow> Percentage \<Rightarrow> Money" where
  "money_times m p = round_half_up_div (m * p) 100000"

text \<open>
  Modelled from the spec: the parameter table of the Config Provider (\<section>4.2, keys of
  \<section>6); \<open>settings.py\<close> is missing. The regional table is the JSON object's list of
  entries.
\<close>

record Config =
  BASE_RATE :: Percentage
  AGE_ADJUSTMENT_RATE :: Percentage
  VALUE_ADJUSTMENT_RATE :: Percentage
  VALUE_ADJUSTMENT_STEP :: Money
  COVERAGE_PERCENTAGE :: Percentage
  GIS_ADJUSTMENT_RATE :: "(string \<times> Percentage) list"

text \<open>
  Modelled from the spec: a configuration source (the environment, or the JSON file) that
  sets some of the fields (\<section>4.2); \<open>settings.py\<close> is missing.
\<close>

record ConfigSource =
  src_BASE_RATE :: "Percentage option"
  src_AGE_ADJUSTMENT_RATE :: "Percentage option"
  src_VALUE_ADJUSTMENT_RATE :: "Percentage option"
  src_VALUE_ADJUSTMENT_STEP :: "Money option"
  src_COVERAGE_PERCENTAGE :: "Percentage option"
  src_GIS_ADJUSTMENT_RATE :: "(string \<times> Percentage) list option"

text \<open>
  Modelled from the spec: "later sources override earlier ones field-by-field, not
  wholesale" (\<section>4.2); \<open>settings.py\<close> is missing.
\<close>

definition override :: "Config \<Rightarrow> ConfigSource \<Rightarrow> Config" where
  "override c s =
     \<lparr> BASE_RATE = (case src_BASE_RATE s of None \<Rightarrow> BASE_RATE c | Some v \<Rightarrow> v),
       AGE_ADJUSTMENT_RATE =
         (case src_AGE_ADJUSTMENT_RATE s of None \<Rightarrow> AGE_ADJUSTMENT_RATE c | Some v \<Rightarrow> v),
       VALUE_ADJUSTMENT_RATE =
         (case src_VALUE_ADJUSTMENT_RATE s of None \<Rightarrow> VALUE_ADJUSTMENT_RATE c | Some v \<Rightarrow> v),
       VALUE_ADJUSTMENT_STEP =
         (case src_VALUE_ADJUSTMENT_STEP s of None \<Rightarrow> VALUE_ADJUSTMENT_STEP c | Some v \<Rightarrow> v),
       COVERAGE_PERCENTAGE =
         (case src_COVERAGE_PERCENTAGE s of None \<Rightarrow> COVERAGE_PERCENTAGE c | Some v \<Rightarrow> v),
       GIS_ADJUSTMENT_RATE =
         (case src_GIS_ADJUSTMENT_RATE s of None \<Rightarrow> GIS_ADJUSTMENT_RATE c | Some v \<Rightarrow> v) \<rparr>"

text \<open>
  Modelled from the spec: the external JSON file is absent (not an error), malformed
  (start-up fails) or holds some fields (\<section>4.2); \<open>settings.py\<close> is missing.
\<close>

datatype JsonFile = FileAbsent | FileMalformed | FileParsed ConfigSource

datatype ConfigError = MalformedConfigFile

text \<open>
  Modelled from the spec: loading the configuration (\<section>4.2): the built-in defaults,
  overridden by the JSON file, overridden by the environment; \<open>settings.py\<close> is missing.
  The defaults are a parameter.
\<close>

definition loadConfig :: "Config \<Rightarrow> JsonFile \<Rightarrow> ConfigSource \<Rightarrow> ConfigError + Config" where
  "loadConfig defaults file env =
     (case file of
        FileMalformed \<Rightarrow> Inl MalformedConfigFile
      | FileAbsent \<Rightarrow> Inr (override defaults env)
      | FileParsed json \<Rightarrow> Inr (override (override defaults json) env))"

text \<open>
  The precedence in the words of the specification, for one field: the environment's
  value if it sets one, else the file's, else the default.
\<close>

definition spec_precedence :: "'a option \<Rightarrow> 'a option \<Rightarrow> 'a \<Rightarrow> 'a" where
  "spec_precedence env_value file_value default_value =
     (case env_value of
        Some v \<Rightarrow> v
      | None \<Rightarrow> (case file_value of Some v \<Rightarrow> v | None \<Rightarrow> default_value))"

definition file_source :: "JsonFile \<Rightarrow> ConfigSource" where
  \<comment> \<open>what a file contributes: its fields, or nothing when it is absent\<close>
  "file_source file =
     (case file of
        FileParsed json \<Rightarrow> json
      | _ \<Rightarrow> \<lparr> src_BASE_RATE = None, src_AGE_ADJUSTMENT_RATE = None,
               src_VALUE_ADJUSTMENT_RATE = None, src_VALUE_ADJUSTMENT_STEP = None,
               src_COVERAGE_PERCENTAGE = None, src_GIS_ADJUSTMENT_RATE = None \<rparr>)"

text \<open>
  Modelled from the spec: \<open>gisRate(stateCode)\<close>, 0 for a state that the table does not
  list (\<section>4.2); \<open>settings.py\<close> is missing.
\<close>

definition gisRate :: "Config \<Rightarrow> string \<Rightarrow> Percentage" where
  "gisRate cfg stateCode =
     (case map_of (GIS_ADJUSTMENT_RATE cfg) stateCode of None \<Rightarrow> 0 | Some p \<Rightarrow> p)"

text \<open>
  Modelled from the spec: the value object \<open>CarInfo\<close> and its construction (\<section>3, \<section>4.1);
  the class is missing. The error names the offending field.
\<close>

datatype DomainError = ValidationError string

record CarInfo =
  ci_make :: string
  ci_model :: string
  ci_year :: int
  ci_value :: Money

definition mkCarInfo :: "int \<Rightarrow> string \<Rightarrow> string \<Rightarrow> int \<Rightarrow> Money \<Rightarrow> DomainError + CarInfo" where
  "mkCarInfo currentYear mk md y v =
     (if mk = [] then Inl (ValidationError ''make'')
      else if md = [] then Inl (ValidationError ''model'')
      else if y < 1900 \<or> currentYear + 1 < y then Inl (ValidationError ''year'')
      else if v \<le> 0 then Inl (ValidationError ''value'')
      else Inr \<lparr> ci_make = mk, ci_model = md, ci_year = y, ci_value = v \<rparr>)"

text \<open>
  Modelled from the spec: the number of whole value steps, \<open>floor(car.value /
  valueAdjustmentStep)\<close>, where "\<open>floor\<close> truncates toward zero" (\<section>4.3); the
  \<open>InsuranceCalculator\<close> is missing. The specification gives no result for a step of 0.
\<close>

definition valueSteps :: "Money \<Rightarrow> Money \<Rightarrow> int" where
  "valueSteps v step =
     (if (v < 0) = (step < 0) then \<bar>v\<bar> div \<bar>step\<bar> else - (\<bar>v\<bar> div \<bar>step\<bar>))"

text \<open>
  Modelled from the spec: \<open>composeRate\<close>, step by step as the algorithm of \<section>4.3 gives
  it; the \<open>InsuranceCalculator\<close> is missing. \<open>currentYear\<close> is a parameter.
\<close>

definition composeRate ::
  "Config \<Rightarrow> int \<Rightarrow> CarInfo \<Rightarrow> Address option \<Rightarrow> Percentage \<times> Percentage option" where
  "composeRate cfg currentYear car address =
     (let ageYears = max 0 (currentYear - ci_year car);
          rate = BASE_RATE cfg
               + AGE_ADJUSTMENT_RATE cfg * ageYears
               + valueSteps (ci_value car) (VALUE_ADJUSTMENT_STEP cfg) * VALUE_ADJUSTMENT_RATE cfg
      in case address of
           None \<Rightarrow> (rate, None)
         | Some a \<Rightarrow> (let gis = gisRate cfg (state a) in (rate + gis, Some gis)))"

text \<open>
  Modelled from the spec: the derived fields that the Premium Calculator returns (\<section>3,
  \<section>4.4); the \<open>InsuranceCalculator\<close> is missing.
\<close>

record PremiumResult =
  appliedRate :: Percentage
  calculatedPremium :: Money
  deductibleValue :: Money
  policyLimit :: Money
  brokerFee :: Money
  gisAdjustment :: "Percentage option"

text \<open>
  Modelled from the spec: the Premium Calculator (\<section>4.4), line by line; the
  \<open>InsuranceCalculator\<close> is missing. No result is rejected (\<section>7: no hard rule yet). The
  policy limit is written as \<section>4.4 has it, with the base premium as the base of the
  deductible; the README names that base "Limite Base" and does not define it.
\<close>

definition calculatePremium ::
  "Config \<Rightarrow> int \<Rightarrow> CarInfo \<Rightarrow> Percentage \<Rightarrow> Money \<Rightarrow> Address option \<Rightarrow> PremiumResult" where
  "calculatePremium cfg currentYear car deductiblePercentage fee address =
     (let (rate, gis) = composeRate cfg currentYear car address;
          basePremium = money_times (ci_value car) rate;
          deductible = money_times basePremium deductiblePercentage;
          premium = basePremium - deductible + fee;
          limit = money_times (ci_value car) (COVERAGE_PERCENTAGE cfg)
                - money_times basePremium deductiblePercentage
      in \<lparr> appliedRate = rate, calculatedPremium = premium, deductibleValue = deductible,
           policyLimit = limit, brokerFee = fee, gisAdjustment = gis \<rparr>)"

text \<open>
  The example parameters of the README (\<open>BASE_RATE\<close> 0.0, \<open>AGE_ADJUSTMENT_RATE\<close> 0.005,
  \<open>VALUE_ADJUSTMENT_RATE\<close> 0.005, \<open>VALUE_ADJUSTMENT_STEP\<close> 10000.0, \<open>COVERAGE_PERCENTAGE\<close>
  1.0, \<open>GIS_ADJUSTMENT_RATE\<close> with \<open>"SP": 0.02\<close>), in cents and units of \<open>10\<^sup>-\<^sup>5\<close>.
\<close>

definition readme_config :: Config where
  "readme_config =
     \<lparr> BASE_RATE = 0, AGE_ADJUSTMENT_RATE = 500, VALUE_ADJUSTMENT_RATE = 500,
       VALUE_ADJUSTMENT_STEP = 1000000, COVERAGE_PERCENTAGE = 100000,
       GIS_ADJUSTMENT_RATE = [(''SP'', 2000)] \<rparr>"

section \<open>Properties of formatCep\<close>

lemma strip_non_digits_all_digits: "list_all is_digit (strip_non_digits s)"
  by (simp add: strip_non_digits_def list_all_iff)

lemma hyphen_not_digit: "\<not> is_digit CHR ''-''"
  by (simp add: is_digit_def)

text \<open>The three steps of \<open>formatCep\<close> in one: at most eight digits, split five and three.\<close>

lemma formatCep_Some:
  "formatCep (Some s) =
     (if length (strip_non_digits s) \<le> 5 then strip_non_digits s
      else take 5 (strip_non_digits s) @ CHR ''-'' # take 3 (drop 5 (strip_non_digits s)))"
proof (cases "s = []")
  case True
  then show ?thesis
    by (simp add: formatCep_def strip_non_digits_def)
next
  case False
  have "list_all is_digit (take 6 (strip_non_digits s))"
    using strip_non_digits_all_digits [of s]
    by (auto simp: list_all_iff dest: in_set_takeD)
  with False show ?thesis
    by (auto simp: formatCep_def insert_hyphen_def)
qed

lemma strip_formatCep:
  "strip_non_digits (formatCep (Some s)) = take 8 (strip_non_digits s)"
proof -
  let ?d = "strip_non_digits s"
  have keep: "\<And>xs. list_all is_digit xs \<Longrightarrow> filter is_digit xs = xs"
    by (simp add: list_all_iff)
  have d5: "list_all is_digit (take 5 ?d)" and d3: "list_all is_digit (take 3 (drop 5 ?d))"
    using strip_non_digits_all_digits [of s]
    by (auto simp: list_all_iff dest: in_set_takeD in_set_dropD)
  show ?thesis
  proof (cases "length ?d \<le> 5")
    case True
    then show ?thesis
      using keep [OF strip_non_digits_all_digits [of s]]
      by (simp add: formatCep_Some strip_non_digits_def)
  next
    case False
    have "take 8 ?d = take 5 ?d @ take 3 (drop 5 ?d)"
      using take_add [of 5 3 ?d] by simp
    with False show ?thesis
      using keep [OF d5] keep [OF d3]
      by (simp add: formatCep_Some strip_non_digits_def hyphen_not_digit)
  qed
qed

lemma formatCep_idem: "formatCep (Some (formatCep cep)) = formatCep cep"
proof (cases cep)
  case None
  then show ?thesis by (simp add: formatCep_def)
next
  case (Some s)
  let ?d = "strip_non_digits s"
  have "formatCep (Some (formatCep (Some s))) = formatCep (Some s)"
  proof (cases "length ?d \<le> 5")
    case True
    then show ?thesis
      by (simp add: formatCep_Some [of "formatCep (Some s)"] strip_formatCep)
        (simp add: formatCep_Some)
  next
    case False
    then have "take 3 (drop 5 (take 8 ?d)) = take 3 (drop 5 ?d)"
      by (simp add: drop_take)
    with False show ?thesis
      by (simp add: formatCep_Some [of "formatCep (Some s)"] strip_formatCep)
        (simp add: formatCep_Some)
  qed
  with Some show ?thesis by simp
qed

lemma formatCep_length: "length (formatCep cep) \<le> 9"
  by (cases cep) (simp_all add: formatCep_def)

lemma formatCep_chars:
  "c \<in> set (formatCep cep) \<Longrightarrow> is_digit c \<or> c = CHR ''-''"
proof (cases cep)
  case None
  assume "c \<in> set (formatCep cep)"
  with None show ?thesis by (simp add: formatCep_def)
next
  case (Some s)
  assume "c \<in> set (formatCep cep)"
  with Some strip_non_digits_all_digits [of s] show ?thesis
    by (auto simp: formatCep_Some list_all_iff
        dest: in_set_takeD in_set_dropD split: if_splits)
qed

lemma formatCep_hyphen_count:
  "length (filter (\<lambda>c. c = CHR ''-'') (formatCep cep)) \<le> 1"
proof (cases cep)
  case None
  then show ?thesis by (simp add: formatCep_def)
next
  case (Some s)
  have none: "\<And>xs. list_all is_digit xs \<Longrightarrow> filter (\<lambda>c. c = CHR ''-'') xs = []"
    using hyphen_not_digit by (auto simp: list_all_iff filter_empty_conv)
  have "list_all is_digit (take 5 (strip_non_digits s))"
    and "list_all is_digit (take 3 (drop 5 (strip_non_digits s)))"
    using strip_non_digits_all_digits [of s]
    by (auto simp: list_all_iff dest: in_set_takeD in_set_dropD)
  with Some none strip_non_digits_all_digits [of s] show ?thesis
    by (simp add: formatCep_Some)
qed

lemma formatCep_hyphen_place:
  assumes "i < length (formatCep cep)" and "formatCep cep ! i = CHR ''-''"
  shows "i = 5 \<and> list_all is_digit (take 5 (formatCep cep))"
proof (cases cep)
  case None
  with assms show ?thesis by (simp add: formatCep_def)
next
  case (Some s)
  let ?d = "strip_non_digits s"
  have dig: "\<And>x. x \<in> set ?d \<Longrightarrow> is_digit x"
    using strip_non_digits_all_digits [of s] by (simp add: list_all_iff)
  show ?thesis
  proof (cases "length ?d \<le> 5")
    case True
    with Some assms have "i < length ?d" and "?d ! i = CHR ''-''"
      by (simp_all add: formatCep_Some)
    then have "is_digit CHR ''-''"
      using dig nth_mem by metis
    then show ?thesis by (simp add: hyphen_not_digit)
  next
    case False
    then have out: "formatCep cep = take 5 ?d @ CHR ''-'' # take 3 (drop 5 ?d)"
      using Some by (simp add: formatCep_Some)
    have len5: "length (take 5 ?d) = 5" using False by simp
    have d5: "list_all is_digit (take 5 ?d)"
      using dig by (auto simp: list_all_iff dest: in_set_takeD)
    have "i = 5"
    proof (rule ccontr)
      assume "i \<noteq> 5"
      then consider "i < 5" | "5 < i" by linarith
      then have "formatCep cep ! i \<in> set ?d"
      proof cases
        case 1
        then have "formatCep cep ! i = take 5 ?d ! i"
          using len5 by (simp add: out nth_append)
        also have "\<dots> \<in> set (take 5 ?d)"
          using 1 len5 nth_mem by metis
        finally show ?thesis by (auto dest: in_set_takeD)
      next
        case 2
        then have "formatCep cep ! i = take 3 (drop 5 ?d) ! (i - 6)"
          using len5 by (simp add: out nth_append nth_Cons')
        also have "\<dots> \<in> set (take 3 (drop 5 ?d))"
        proof (rule nth_mem)
          have "length (formatCep cep) = 6 + length (take 3 (drop 5 ?d))"
            using len5 by (simp add: out)
          with 2 assms(1) show "i - 6 < length (take 3 (drop 5 ?d))"
            by linarith
        qed
        finally show ?thesis by (auto dest: in_set_takeD in_set_dropD)
      qed
      then have "is_digit CHR ''-''" using dig assms(2) by metis
      then show False by (simp add: hyphen_not_digit)
    qed
    moreover have "take 5 (formatCep cep) = take 5 ?d"
      using len5 by (simp add: out)
    ultimately show ?thesis using d5 by simp
  qed
qed

text \<open>
  C10. \<open>formatCep\<close> is idempotent and keeps its shape. For every argument (a string,
  \<open>undefined\<close> or \<open>null\<close>): formatting the result again gives the result; the result has at
  most nine code units; each of them is a digit or a hyphen; there is at most one hyphen;
  and a hyphen stands at index 5 only, after five digits.
\<close>

theorem formatCep_idempotent_shape:
  "formatCep (Some (formatCep cep)) = formatCep cep \<and>
   length (formatCep cep) \<le> 9 \<and>
   (\<forall>c \<in> set (formatCep cep). is_digit c \<or> c = CHR ''-'') \<and>
   length (filter (\<lambda>c. c = CHR ''-'') (formatCep cep)) \<le> 1 \<and>
   (\<forall>i < length (formatCep cep). formatCep cep ! i = CHR ''-'' \<longrightarrow>
      i = 5 \<and> list_all is_digit (take 5 (formatCep cep)))"
  using formatCep_idem formatCep_length formatCep_chars formatCep_hyphen_count
    formatCep_hyphen_place by blast

theorem formatCep_idempotent_shape_witness:
  "formatCep (Some ''01310100xyz99'') = ''01310-100'' \<and>
   formatCep (Some (formatCep (Some ''01310100xyz99''))) = ''01310-100'' \<and>
   length (formatCep (Some ''01310100xyz99'')) = 9 \<and>
   formatCep (Some ''01310-100'') ! 5 = CHR ''-''"
proof -
  have out: "formatCep (Some ''01310100xyz99'') = ''01310-100''"
    by (simp add: formatCep_def insert_hyphen_def strip_non_digits_def is_digit_def)
  have "formatCep (Some (formatCep (Some ''01310100xyz99''))) =
      formatCep (Some ''01310100xyz99'')"
    using formatCep_idempotent_shape [of "Some ''01310100xyz99''"] by (rule conjunct1)
  then show ?thesis
    using out by simp
qed

section \<open>Properties of the edit flow\<close>

text \<open>
  C9. When a stored calculation is opened for editing, the form is pre-filled by
  \<open>mapResponseToBaseFormData\<close>: make, model, year, value and broker fee are copied from
  the response, and the deductible percentage is the constant 0.10. The response carries
  no deductible percentage; whatever deductible produced its \<open>deductible_value\<close>,
  \<open>calculated_premium\<close> and \<open>policy_limit\<close>, the pre-filled form is the same.
\<close>

theorem mapResponseToBaseFormData_default_deductible:
  "mapResponseToBaseFormData (Some calc) =
     Some \<lparr> form_make = car_make calc, model = car_model calc, year = car_year calc,
            form_value = car_value calc, deductible_percentage = 1 / 10,
            broker_fee = calc_broker_fee calc \<rparr> \<and>
   editingDataBase (handleOpenModal (Some calc) st) = mapResponseToBaseFormData (Some calc) \<and>
   mapResponseToBaseFormData
     (Some (calc \<lparr> deductible_value := dv, calculated_premium := cp, policy_limit := pl \<rparr>)) =
     mapResponseToBaseFormData (Some calc)"
  by (simp add: mapResponseToBaseFormData_def handleOpenModal_def)

section \<open>Properties of the form validation\<close>

lemma is_integer_Ints: "is_integer r \<longleftrightarrow> r \<in> \<int>"
  unfolding is_integer_def
  by (metis Ints_cases Ints_of_int floor_of_int)

lemma z_min_length_Nil: "z_min_length path n s = [] \<longleftrightarrow> n \<le> length s"
  by (auto simp: z_min_length_def)

lemma z_length_Nil: "z_length path n s = [] \<longleftrightarrow> length s = n"
  by (auto simp: z_length_def)

lemma year_issues_Nil:
  "year_issues cy y = [] \<longleftrightarrow> (\<exists>r. y = Some r \<and> r \<in> \<int> \<and> 1900 \<le> r \<and> r \<le> of_int (cy + 1))"
  by (cases y) (auto simp: year_issues_def is_integer_Ints)

lemma value_issues_Nil: "value_issues v = [] \<longleftrightarrow> (\<exists>r. v = Some r \<and> 0 < r)"
  by (cases v) (auto simp: value_issues_def)

lemma deductible_percentage_issues_Nil:
  "deductible_percentage_issues d = [] \<longleftrightarrow> (\<exists>r. d = Some r \<and> 0 \<le> r \<and> r \<le> 1)"
  by (cases d) (auto simp: deductible_percentage_issues_def)

lemma broker_fee_issues_Nil: "broker_fee_issues b = [] \<longleftrightarrow> (\<exists>r. b = Some r \<and> 0 \<le> r)"
  by (cases b) (auto simp: broker_fee_issues_def)

lemmas issues_Nil = z_min_length_Nil year_issues_Nil value_issues_Nil
  deductible_percentage_issues_Nil broker_fee_issues_Nil

lemma insuranceBaseSchema_Inr_iff:
  "insuranceBaseSchema cy inp = Inr d \<longleftrightarrow>
     in_make inp \<noteq> [] \<and> in_model inp \<noteq> [] \<and>
     (\<exists>y. in_year inp = Some y \<and> y \<in> \<int> \<and> 1900 \<le> y \<and> y \<le> of_int (cy + 1)) \<and>
     (\<exists>v. in_value inp = Some v \<and> 0 < v) \<and>
     (\<exists>p. in_deductible_percentage inp = Some p \<and> 0 \<le> p \<and> p \<le> 1) \<and>
     (\<exists>b. in_broker_fee inp = Some b \<and> 0 \<le> b) \<and>
     d = \<lparr> form_make = in_make inp, model = in_model inp, year = the (in_year inp),
           form_value = the (in_value inp),
           deductible_percentage = the (in_deductible_percentage inp),
           broker_fee = the (in_broker_fee inp) \<rparr>"
proof (cases "in_year inp")
  case None
  then show ?thesis by (simp add: insuranceBaseSchema_def Let_def)
next
  case y: (Some y)
  show ?thesis
  proof (cases "in_value inp")
    case None
    then show ?thesis using y by (simp add: insuranceBaseSchema_def Let_def)
  next
    case v: (Some v)
    show ?thesis
    proof (cases "in_deductible_percentage inp")
      case None
      then show ?thesis using y v by (simp add: insuranceBaseSchema_def Let_def)
    next
      case p: (Some p)
      show ?thesis
      proof (cases "in_broker_fee inp")
        case None
        then show ?thesis using y v p by (simp add: insuranceBaseSchema_def Let_def)
      next
        case b: (Some b)
        have "year_issues cy (Some y) = [] \<longleftrightarrow> y \<in> \<int> \<and> 1900 \<le> y \<and> y \<le> of_int (cy + 1)"
          and "value_issues (Some v) = [] \<longleftrightarrow> 0 < v"
          and "deductible_percentage_issues (Some p) = [] \<longleftrightarrow> 0 \<le> p \<and> p \<le> 1"
          and "broker_fee_issues (Some b) = [] \<longleftrightarrow> 0 \<le> b"
          by (simp_all add: issues_Nil)
        then show ?thesis using y v p b
          by (simp add: insuranceBaseSchema_def Let_def z_min_length_Nil Suc_le_eq) blast
      qed
    qed
  qed
qed

lemma insuranceBaseSchema_Inl_nonempty:
  assumes "insuranceBaseSchema cy inp = Inl e" shows "e \<noteq> []"
proof
  assume "e = []"
  with assms have nil: "year_issues cy (in_year inp) = []" "value_issues (in_value inp) = []"
    "deductible_percentage_issues (in_deductible_percentage inp) = []"
    "broker_fee_issues (in_broker_fee inp) = []"
    "z_min_length ''make'' 1 (in_make inp) = []" "z_min_length ''model'' 1 (in_model inp) = []"
    by (auto simp: insuranceBaseSchema_def Let_def split: option.splits if_splits prod.splits)
  then obtain y v p b where "in_year inp = Some y" "in_value inp = Some v"
    "in_deductible_percentage inp = Some p" "in_broker_fee inp = Some b"
    by (auto simp: issues_Nil)
  with nil assms show False
    by (simp add: insuranceBaseSchema_def Let_def)
qed

lemma cep_regex_iff:
  "cep_regex s \<longleftrightarrow>
     (\<exists>p q. (s = p @ q \<or> s = p @ ''-'' @ q) \<and> length p = 5 \<and> length q = 3 \<and>
        list_all is_digit p \<and> list_all is_digit q)"
proof
  assume m: "cep_regex s"
  let ?p = "take 5 s" and ?r = "drop 5 s"
  from m have p: "length ?p = 5" "list_all is_digit ?p"
    by (simp_all add: cep_regex_def)
  have s: "s = ?p @ ?r" by simp
  show "\<exists>p q. (s = p @ q \<or> s = p @ ''-'' @ q) \<and> length p = 5 \<and> length q = 3 \<and>
        list_all is_digit p \<and> list_all is_digit q"
  proof (cases ?r)
    case Nil
    with m show ?thesis by (simp add: cep_regex_def)
  next
    case (Cons c cs)
    show ?thesis
    proof (cases "c = CHR ''-''")
      case True
      with m Cons have "length cs = 3" "list_all is_digit cs"
        by (simp_all add: cep_regex_def)
      moreover from s Cons True have "s = ?p @ ''-'' @ cs" by simp
      ultimately show ?thesis using p by blast
    next
      case False
      with m Cons have "length ?r = 3" "list_all is_digit ?r"
        by (simp_all add: cep_regex_def)
      with s p show ?thesis by blast
    qed
  qed
next
  assume "\<exists>p q. (s = p @ q \<or> s = p @ ''-'' @ q) \<and> length p = 5 \<and> length q = 3 \<and>
        list_all is_digit p \<and> list_all is_digit q"
  then obtain p q where pq: "s = p @ q \<or> s = p @ ''-'' @ q" "length p = 5" "length q = 3"
    "list_all is_digit p" "list_all is_digit q" by blast
  from pq(3,5) obtain c cs where q: "q = c # cs" "is_digit c"
    by (cases q) auto
  then have "c \<noteq> CHR ''-''" using hyphen_not_digit by auto
  with pq q show "cep_regex s"
    by (auto simp: cep_regex_def)
qed

lemma postal_code_issues_Nil: "postal_code_issues s = [] \<longleftrightarrow> cep_regex s"
proof -
  have "cep_regex s \<Longrightarrow> 8 \<le> length s"
    by (auto simp: cep_regex_iff)
  then show ?thesis
    by (auto simp: postal_code_issues_def z_min_length_Nil)
qed

lemma strip_non_digits_cep:
  assumes "cep_regex s"
  shows "length (strip_non_digits s) = 8 \<and> list_all is_digit (strip_non_digits s)"
proof -
  from assms obtain p q where pq: "s = p @ q \<or> s = p @ ''-'' @ q" "length p = 5" "length q = 3"
    "list_all is_digit p" "list_all is_digit q" by (auto simp: cep_regex_iff)
  have keep: "\<And>xs. list_all is_digit xs \<Longrightarrow> filter is_digit xs = xs"
    by (simp add: list_all_iff)
  from pq have "strip_non_digits s = p @ q"
    by (auto simp: strip_non_digits_def keep hyphen_not_digit)
  with pq show ?thesis by simp
qed

lemma addressSchema_Inr_iff:
  "addressSchema a = Inr b \<longleftrightarrow>
     b = a \<and> street a \<noteq> [] \<and> number a \<noteq> [] \<and> neighborhood a \<noteq> [] \<and> city a \<noteq> [] \<and>
     length (state a) = 2 \<and> cep_regex (postal_code a) \<and> length (country a) = 2"
  by (auto simp: addressSchema_def Let_def z_min_length_Nil z_length_Nil postal_code_issues_Nil
      Suc_le_eq)

lemma addressSchema_Inl_nonempty: "addressSchema a = Inl e \<Longrightarrow> e \<noteq> []"
  by (auto simp: addressSchema_def Let_def split: if_splits)

lemma pick_postal_code_Inl: "addressSchema_pick_postal_code a = Inl e \<Longrightarrow> take 1 e \<noteq> [] \<and> \<not> cep_regex (postal_code a)"
  by (auto simp: addressSchema_pick_postal_code_def Let_def postal_code_issues_Nil split: if_splits)

lemma pick_postal_code_Inr: "addressSchema_pick_postal_code a = Inr c \<Longrightarrow> cep_regex (postal_code a)"
  by (auto simp: addressSchema_pick_postal_code_def Let_def postal_code_issues_Nil split: if_splits)

lemma validateAddress_True:
  "fst (validateAddress True (Some a)) \<longleftrightarrow> addressSchema a = Inr a"
proof (cases "addressSchema_pick_postal_code a")
  case (Inl e)
  then show ?thesis
    using pick_postal_code_Inl [OF Inl]
    by (auto simp: validateAddress_def addressSchema_Inr_iff)
next
  case (Inr c)
  show ?thesis
  proof (cases "addressSchema a")
    case (Inl e)
    with Inr show ?thesis by (simp add: validateAddress_def)
  next
    case r: (Inr b)
    then have "b = a" by (simp add: addressSchema_Inr_iff)
    with Inr r show ?thesis by (simp add: validateAddress_def)
  qed
qed

lemma validateAddress_errors:
  "\<not> fst (validateAddress True (Some a)) \<Longrightarrow> snd (validateAddress True (Some a)) \<noteq> []"
proof (cases "addressSchema_pick_postal_code a")
  case (Inl e)
  assume "\<not> fst (validateAddress True (Some a))"
  then show ?thesis
    using pick_postal_code_Inl [OF Inl] Inl
    by (auto simp: validateAddress_def)
next
  case (Inr c)
  assume "\<not> fst (validateAddress True (Some a))"
  then show ?thesis using Inr
    by (cases "addressSchema a") (auto simp: validateAddress_def dest: addressSchema_Inl_nonempty)
qed

lemma handlePrepareSubmit_with_address:
  "handlePrepareSubmit True (Some a) base =
     (if addressSchema a = Inr a
      then Inr \<lparr> req_make = form_make base, req_model = model base, req_year = year base,
                 req_value = form_value base,
                 req_deductible_percentage = deductible_percentage base,
                 req_broker_fee = broker_fee base,
                 req_registration_location =
                   Some \<lparr> street = street a, number = number a,
                          complement =
                            (case complement a of
                               None \<Rightarrow> None
                             | Some c \<Rightarrow> if c = [] then None else Some c),
                          neighborhood = neighborhood a, city = city a, state = state a,
                          postal_code = strip_non_digits (postal_code a),
                          country = country a \<rparr> \<rparr>
      else Inl (snd (validateAddress True (Some a))))"
  by (simp add: handlePrepareSubmit_def Let_def validateAddress_True)

text \<open>
  C7. The calculation inputs are accepted exactly when every invariant holds: make and
  model are non-empty, the year is an integer with \<open>1900 \<le> year \<le> currentYear + 1\<close>, the
  value is positive, the deductible percentage lies in \<open>[0, 1]\<close>, and the broker fee (a
  Money, which is never negative) is at least 0. An input that violates one of them is
  rejected with a non-empty list of issues, and the submit handler stops there: no request
  is built from it.
\<close>

theorem insuranceBaseSchema_rejects_exactly_invalid:
  "((\<exists>d. insuranceBaseSchema currentYear inp = Inr d) \<longleftrightarrow>
      in_make inp \<noteq> [] \<and> in_model inp \<noteq> [] \<and>
      (\<exists>y. in_year inp = Some y \<and> y \<in> \<int> \<and> 1900 \<le> y \<and> y \<le> of_int (currentYear + 1)) \<and>
      (\<exists>v. in_value inp = Some v \<and> 0 < v) \<and>
      (\<exists>p. in_deductible_percentage inp = Some p \<and> 0 \<le> p \<and> p \<le> 1) \<and>
      (\<exists>b. in_broker_fee inp = Some b \<and> 0 \<le> b)) \<and>
   ((\<nexists>d. insuranceBaseSchema currentYear inp = Inr d) \<longrightarrow>
      (\<exists>issues. issues \<noteq> [] \<and> insuranceBaseSchema currentYear inp = Inl issues \<and>
         handleBaseSubmit currentYear inp includeAddress addressData = Inl issues))"
proof (intro conjI impI)
  show "(\<exists>d. insuranceBaseSchema currentYear inp = Inr d) \<longleftrightarrow>
      in_make inp \<noteq> [] \<and> in_model inp \<noteq> [] \<and>
      (\<exists>y. in_year inp = Some y \<and> y \<in> \<int> \<and> 1900 \<le> y \<and> y \<le> of_int (currentYear + 1)) \<and>
      (\<exists>v. in_value inp = Some v \<and> 0 < v) \<and>
      (\<exists>p. in_deductible_percentage inp = Some p \<and> 0 \<le> p \<and> p \<le> 1) \<and>
      (\<exists>b. in_broker_fee inp = Some b \<and> 0 \<le> b)"
    by (simp add: insuranceBaseSchema_Inr_iff)
next
  assume "\<nexists>d. insuranceBaseSchema currentYear inp = Inr d"
  then obtain issues where e: "insuranceBaseSchema currentYear inp = Inl issues"
    by (cases "insuranceBaseSchema currentYear inp") auto
  then have "issues \<noteq> []" by (rule insuranceBaseSchema_Inl_nonempty)
  with e show "\<exists>issues. issues \<noteq> [] \<and> insuranceBaseSchema currentYear inp = Inl issues \<and>
         handleBaseSubmit currentYear inp includeAddress addressData = Inl issues"
    by (simp add: handleBaseSubmit_def)
qed

theorem insuranceBaseSchema_rejects_exactly_invalid_witness:
  "(\<exists>d. insuranceBaseSchema 2026
        \<lparr> in_make = ''Fiat'', in_model = ''Uno'', in_year = Some 2027, in_value = Some 50000,
          in_deductible_percentage = Some 1, in_broker_fee = Some 100 \<rparr> = Inr d) \<and>
   (\<exists>issues. issues \<noteq> [] \<and>
      handleBaseSubmit 2026
        \<lparr> in_make = ''Fiat'', in_model = ''Uno'', in_year = Some 2028, in_value = Some 50000,
          in_deductible_percentage = Some 1, in_broker_fee = Some 100 \<rparr>
        False None = Inl issues)"
proof
  show "\<exists>d. insuranceBaseSchema 2026
        \<lparr> in_make = ''Fiat'', in_model = ''Uno'', in_year = Some 2027, in_value = Some 50000,
          in_deductible_percentage = Some 1, in_broker_fee = Some 100 \<rparr> = Inr d"
    using insuranceBaseSchema_rejects_exactly_invalid
      [of 2026 "\<lparr> in_make = ''Fiat'', in_model = ''Uno'', in_year = Some 2027,
          in_value = Some 50000, in_deductible_percentage = Some 1,
          in_broker_fee = Some 100 \<rparr>" False None]
    by simp
next
  let ?bad = "\<lparr> in_make = ''Fiat'', in_model = ''Uno'', in_year = Some 2028,
          in_value = Some 50000, in_deductible_percentage = Some 1,
          in_broker_fee = Some 100 \<rparr>"
  note inst = insuranceBaseSchema_rejects_exactly_invalid [of 2026 ?bad False None]
  from inst have "\<nexists>d. insuranceBaseSchema 2026 ?bad = Inr d"
    by simp
  with inst show "\<exists>issues. issues \<noteq> [] \<and> handleBaseSubmit 2026 ?bad False None = Inl issues"
    by blast
qed

text \<open>
  C8, as the code has it. An address is accepted exactly when street, number, neighborhood
  and city are non-empty, state has exactly two characters (of any kind), the postal code
  is five digits, an optional hyphen and three digits, and country has exactly two
  characters. When the form is submitted with an accepted address, the address sent has
  the same street, number, neighborhood, city, state and country and a postal code of
  exactly eight digits (the hyphen is removed); an address that is not accepted is
  rejected with a non-empty list of issues and nothing is sent.
\<close>

theorem addressSchema_accepts_iff:
  "((\<exists>b. addressSchema a = Inr b) \<longleftrightarrow>
      street a \<noteq> [] \<and> number a \<noteq> [] \<and> neighborhood a \<noteq> [] \<and> city a \<noteq> [] \<and>
      length (state a) = 2 \<and>
      (\<exists>p q. (postal_code a = p @ q \<or> postal_code a = p @ ''-'' @ q) \<and>
         length p = 5 \<and> length q = 3 \<and> list_all is_digit p \<and> list_all is_digit q) \<and>
      length (country a) = 2) \<and>
   (\<forall>req. handlePrepareSubmit True (Some a) base = Inr req \<longrightarrow>
      (\<exists>b. addressSchema a = Inr b) \<and>
      (\<exists>sent. req_registration_location req = Some sent \<and>
         street sent = street a \<and> number sent = number a \<and>
         neighborhood sent = neighborhood a \<and> city sent = city a \<and>
         state sent = state a \<and> country sent = country a \<and>
         length (postal_code sent) = 8 \<and> list_all is_digit (postal_code sent))) \<and>
   ((\<nexists>b. addressSchema a = Inr b) \<longrightarrow>
      (\<exists>issues. issues \<noteq> [] \<and> handlePrepareSubmit True (Some a) base = Inl issues))"
proof (intro conjI allI impI)
  show "(\<exists>b. addressSchema a = Inr b) \<longleftrightarrow>
      street a \<noteq> [] \<and> number a \<noteq> [] \<and> neighborhood a \<noteq> [] \<and> city a \<noteq> [] \<and>
      length (state a) = 2 \<and>
      (\<exists>p q. (postal_code a = p @ q \<or> postal_code a = p @ ''-'' @ q) \<and>
         length p = 5 \<and> length q = 3 \<and> list_all is_digit p \<and> list_all is_digit q) \<and>
      length (country a) = 2"
    by (simp add: addressSchema_Inr_iff cep_regex_iff)
next
  fix req
  assume sub: "handlePrepareSubmit True (Some a) base = Inr req"
  then have ok: "addressSchema a = Inr a"
    by (simp add: handlePrepareSubmit_with_address split: if_splits)
  then show "\<exists>b. addressSchema a = Inr b" by blast
  from ok have "cep_regex (postal_code a)" by (simp add: addressSchema_Inr_iff)
  then have "length (strip_non_digits (postal_code a)) = 8"
    and "list_all is_digit (strip_non_digits (postal_code a))"
    using strip_non_digits_cep by blast+
  with sub ok show "\<exists>sent. req_registration_location req = Some sent \<and>
         street sent = street a \<and> number sent = number a \<and>
         neighborhood sent = neighborhood a \<and> city sent = city a \<and>
         state sent = state a \<and> country sent = country a \<and>
         length (postal_code sent) = 8 \<and> list_all is_digit (postal_code sent)"
    by (auto simp: handlePrepareSubmit_with_address)
next
  assume no: "\<nexists>b. addressSchema a = Inr b"
  then have "\<not> fst (validateAddress True (Some a))"
    by (simp add: validateAddress_True)
  then have "snd (validateAddress True (Some a)) \<noteq> []"
    by (rule validateAddress_errors)
  with no show "\<exists>issues. issues \<noteq> [] \<and> handlePrepareSubmit True (Some a) base = Inl issues"
    by (simp add: handlePrepareSubmit_with_address)
qed

lemmas address_eval_defs = handlePrepareSubmit_def validateAddress_def
  addressSchema_pick_postal_code_def postal_code_issues_def z_min_length_def cep_regex_def
  is_digit_def addressSchema_def z_length_def strip_non_digits_def Let_def

theorem addressSchema_accepts_iff_witness:
  "(\<exists>req sent.
      handlePrepareSubmit True
        (Some \<lparr> street = ''Avenida Paulista'', number = ''1000'', complement = Some [],
                neighborhood = ''Bela Vista'', city = ''Sao Paulo'', state = ''SP'',
                postal_code = ''01310-100'', country = ''BR'' \<rparr>)
        \<lparr> form_make = ''Fiat'', model = ''Uno'', year = 2020, form_value = 50000,
          deductible_percentage = 1 / 10, broker_fee = 100 \<rparr> = Inr req \<and>
      req_registration_location req = Some sent \<and>
      state sent = ''SP'' \<and> length (postal_code sent) = 8 \<and>
      list_all is_digit (postal_code sent)) \<and>
   (\<exists>issues. issues \<noteq> [] \<and>
      handlePrepareSubmit True
        (Some \<lparr> street = [], number = ''1000'', complement = None,
                neighborhood = ''Bela Vista'', city = ''Sao Paulo'', state = ''SP'',
                postal_code = ''01310-100'', country = ''BR'' \<rparr>)
        \<lparr> form_make = ''Fiat'', model = ''Uno'', year = 2020, form_value = 50000,
          deductible_percentage = 1 / 10, broker_fee = 100 \<rparr> = Inl issues)"
proof
  let ?a = "\<lparr> street = ''Avenida Paulista'', number = ''1000'', complement = Some [],
                   neighborhood = ''Bela Vista'', city = ''Sao Paulo'', state = ''SP'',
                   postal_code = ''01310-100'', country = ''BR'' \<rparr>"
  let ?base = "\<lparr> form_make = ''Fiat'', model = ''Uno'', year = 2020, form_value = 50000,
             deductible_percentage = 1 / 10, broker_fee = 100 \<rparr>"
  obtain req where req: "handlePrepareSubmit True (Some ?a) ?base = Inr req"
    by (simp add: address_eval_defs)
  with addressSchema_accepts_iff [of ?a ?base]
  obtain sent where "req_registration_location req = Some sent" "state sent = state ?a"
    "length (postal_code sent) = 8" "list_all is_digit (postal_code sent)"
    by blast
  with req show "\<exists>req sent. handlePrepareSubmit True (Some ?a) ?base = Inr req \<and>
      req_registration_location req = Some sent \<and>
      state sent = ''SP'' \<and> length (postal_code sent) = 8 \<and>
      list_all is_digit (postal_code sent)"
    by auto
next
  let ?a = "\<lparr> street = [], number = ''1000'', complement = None,
                neighborhood = ''Bela Vista'', city = ''Sao Paulo'', state = ''SP'',
                postal_code = ''01310-100'', country = ''BR'' \<rparr>"
  let ?base = "\<lparr> form_make = ''Fiat'', model = ''Uno'', year = 2020, form_value = 50000,
             deductible_percentage = 1 / 10, broker_fee = 100 \<rparr>"
  note inst = addressSchema_accepts_iff [of ?a ?base]
  from inst have "\<nexists>b. addressSchema ?a = Inr b"
    by simp
  with inst show "\<exists>issues. issues \<noteq> [] \<and> handlePrepareSubmit True (Some ?a) ?base = Inl issues"
    by blast
qed

text \<open>
  The claim as the specification words it fails on two counts. An address whose state is
  \<open>12\<close> passes the schema, and two digits are not two letters; and an address whose postal
  code is written \<open>01310-100\<close> passes the schema with nine characters.
\<close>

theorem addressSchema_two_letters_counterexample:
  "addressSchema
     \<lparr> street = ''Avenida Paulista'', number = ''1000'', complement = None,
       neighborhood = ''Bela Vista'', city = ''Sao Paulo'', state = ''12'',
       postal_code = ''01310100'', country = ''BR'' \<rparr> =
   Inr \<lparr> street = ''Avenida Paulista'', number = ''1000'', complement = None,
         neighborhood = ''Bela Vista'', city = ''Sao Paulo'', state = ''12'',
         postal_code = ''01310100'', country = ''BR'' \<rparr> \<and>
   \<not> spec_address_constraints
     \<lparr> street = ''Avenida Paulista'', number = ''1000'', complement = None,
       neighborhood = ''Bela Vista'', city = ''Sao Paulo'', state = ''12'',
       postal_code = ''01310100'', country = ''BR'' \<rparr> \<and>
   addressSchema
     \<lparr> street = ''Avenida Paulista'', number = ''1000'', complement = None,
       neighborhood = ''Bela Vista'', city = ''Sao Paulo'', state = ''SP'',
       postal_code = ''01310-100'', country = ''BR'' \<rparr> =
   Inr \<lparr> street = ''Avenida Paulista'', number = ''1000'', complement = None,
         neighborhood = ''Bela Vista'', city = ''Sao Paulo'', state = ''SP'',
         postal_code = ''01310-100'', country = ''BR'' \<rparr> \<and>
   \<not> spec_address_constraints
     \<lparr> street = ''Avenida Paulista'', number = ''1000'', complement = None,
       neighborhood = ''Bela Vista'', city = ''Sao Paulo'', state = ''SP'',
       postal_code = ''01310-100'', country = ''BR'' \<rparr>"
  by (simp add: address_eval_defs spec_address_constraints_def is_letter_def)

section \<open>Properties of the configuration\<close>

lemma override_override_fields:
  "BASE_RATE (override (override d j) e) =
     spec_precedence (src_BASE_RATE e) (src_BASE_RATE j) (BASE_RATE d)"
  "AGE_ADJUSTMENT_RATE (override (override d j) e) =
     spec_precedence (src_AGE_ADJUSTMENT_RATE e) (src_AGE_ADJUSTMENT_RATE j)
       (AGE_ADJUSTMENT_RATE d)"
  "VALUE_ADJUSTMENT_RATE (override (override d j) e) =
     spec_precedence (src_VALUE_ADJUSTMENT_RATE e) (src_VALUE_ADJUSTMENT_RATE j)
       (VALUE_ADJUSTMENT_RATE d)"
  "VALUE_ADJUSTMENT_STEP (override (override d j) e) =
     spec_precedence (src_VALUE_ADJUSTMENT_STEP e) (src_VALUE_ADJUSTMENT_STEP j)
       (VALUE_ADJUSTMENT_STEP d)"
  "COVERAGE_PERCENTAGE (override (override d j) e) =
     spec_precedence (src_COVERAGE_PERCENTAGE e) (src_COVERAGE_PERCENTAGE j)
       (COVERAGE_PERCENTAGE d)"
  "GIS_ADJUSTMENT_RATE (override (override d j) e) =
     spec_precedence (src_GIS_ADJUSTMENT_RATE e) (src_GIS_ADJUSTMENT_RATE j)
       (GIS_ADJUSTMENT_RATE d)"
  by (simp_all add: override_def spec_precedence_def split: option.splits)

lemma override_nothing: "override c (file_source FileAbsent) = c"
  by (simp add: override_def file_source_def)

lemma loadConfig_ok:
  "jsonFile \<noteq> FileMalformed \<Longrightarrow>
     loadConfig defaults jsonFile env =
       Inr (override (override defaults (file_source jsonFile)) env)"
proof (cases jsonFile)
  case FileAbsent
  then show ?thesis by (simp add: loadConfig_def override_nothing)
next
  case FileMalformed
  moreover assume "jsonFile \<noteq> FileMalformed"
  ultimately show ?thesis by simp
next
  case (FileParsed json)
  then show ?thesis by (simp add: loadConfig_def file_source_def)
qed

text \<open>
  C5. The configuration is resolved field by field with the precedence environment, then
  JSON file, then built-in defaults. When the file is absent or well-formed, loading
  succeeds and every field of the result is the environment's value if the environment
  sets the field, else the file's value if the file sets it, else the default; so a source
  that sets some fields leaves the others to the sources below it. A malformed file makes
  loading fail.
\<close>

theorem loadConfig_precedence:
  "(jsonFile \<noteq> FileMalformed \<longrightarrow>
      (\<exists>c. loadConfig defaults jsonFile env = Inr c \<and>
         BASE_RATE c =
           spec_precedence (src_BASE_RATE env) (src_BASE_RATE (file_source jsonFile))
             (BASE_RATE defaults) \<and>
         AGE_ADJUSTMENT_RATE c =
           spec_precedence (src_AGE_ADJUSTMENT_RATE env)
             (src_AGE_ADJUSTMENT_RATE (file_source jsonFile)) (AGE_ADJUSTMENT_RATE defaults) \<and>
         VALUE_ADJUSTMENT_RATE c =
           spec_precedence (src_VALUE_ADJUSTMENT_RATE env)
             (src_VALUE_ADJUSTMENT_RATE (file_source jsonFile)) (VALUE_ADJUSTMENT_RATE defaults) \<and>
         VALUE_ADJUSTMENT_STEP c =
           spec_precedence (src_VALUE_ADJUSTMENT_STEP env)
             (src_VALUE_ADJUSTMENT_STEP (file_source jsonFile)) (VALUE_ADJUSTMENT_STEP defaults) \<and>
         COVERAGE_PERCENTAGE c =
           spec_precedence (src_COVERAGE_PERCENTAGE env)
             (src_COVERAGE_PERCENTAGE (file_source jsonFile)) (COVERAGE_PERCENTAGE defaults) \<and>
         GIS_ADJUSTMENT_RATE c =
           spec_precedence (src_GIS_ADJUSTMENT_RATE env)
             (src_GIS_ADJUSTMENT_RATE (file_source jsonFile)) (GIS_ADJUSTMENT_RATE defaults))) \<and>
   (jsonFile = FileMalformed \<longrightarrow> loadConfig defaults jsonFile env = Inl MalformedConfigFile)"
proof (intro conjI impI)
  assume "jsonFile \<noteq> FileMalformed"
  then have "loadConfig defaults jsonFile env =
      Inr (override (override defaults (file_source jsonFile)) env)"
    by (rule loadConfig_ok)
  then show "\<exists>c. loadConfig defaults jsonFile env = Inr c \<and>
         BASE_RATE c =
           spec_precedence (src_BASE_RATE env) (src_BASE_RATE (file_source jsonFile))
             (BASE_RATE defaults) \<and>
         AGE_ADJUSTMENT_RATE c =
           spec_precedence (src_AGE_ADJUSTMENT_RATE env)
             (src_AGE_ADJUSTMENT_RATE (file_source jsonFile)) (AGE_ADJUSTMENT_RATE defaults) \<and>
         VALUE_ADJUSTMENT_RATE c =
           spec_precedence (src_VALUE_ADJUSTMENT_RATE env)
             (src_VALUE_ADJUSTMENT_RATE (file_source jsonFile)) (VALUE_ADJUSTMENT_RATE defaults) \<and>
         VALUE_ADJUSTMENT_STEP c =
           spec_precedence (src_VALUE_ADJUSTMENT_STEP env)
             (src_VALUE_ADJUSTMENT_STEP (file_source jsonFile)) (VALUE_ADJUSTMENT_STEP defaults) \<and>
         COVERAGE_PERCENTAGE c =
           spec_precedence (src_COVERAGE_PERCENTAGE env)
             (src_COVERAGE_PERCENTAGE (file_source jsonFile)) (COVERAGE_PERCENTAGE defaults) \<and>
         GIS_ADJUSTMENT_RATE c =
           spec_precedence (src_GIS_ADJUSTMENT_RATE env)
             (src_GIS_ADJUSTMENT_RATE (file_source jsonFile)) (GIS_ADJUSTMENT_RATE defaults)"
    by (simp add: override_override_fields)
next
  assume "jsonFile = FileMalformed"
  then show "loadConfig defaults jsonFile env = Inl MalformedConfigFile"
    by (simp add: loadConfig_def)
qed

theorem loadConfig_precedence_witness:
  "(\<exists>c. loadConfig readme_config
         (FileParsed \<lparr> src_BASE_RATE = Some 1000, src_AGE_ADJUSTMENT_RATE = Some 700,
            src_VALUE_ADJUSTMENT_RATE = None, src_VALUE_ADJUSTMENT_STEP = None,
            src_COVERAGE_PERCENTAGE = None, src_GIS_ADJUSTMENT_RATE = None \<rparr>)
         \<lparr> src_BASE_RATE = Some 3000, src_AGE_ADJUSTMENT_RATE = None,
           src_VALUE_ADJUSTMENT_RATE = None, src_VALUE_ADJUSTMENT_STEP = None,
           src_COVERAGE_PERCENTAGE = None, src_GIS_ADJUSTMENT_RATE = None \<rparr> = Inr c \<and>
       BASE_RATE c = 3000 \<and> AGE_ADJUSTMENT_RATE c = 700 \<and> VALUE_ADJUSTMENT_RATE c = 500 \<and>
       GIS_ADJUSTMENT_RATE c = [(''SP'', 2000)]) \<and>
   loadConfig readme_config FileMalformed
     \<lparr> src_BASE_RATE = Some 3000, src_AGE_ADJUSTMENT_RATE = None,
       src_VALUE_ADJUSTMENT_RATE = None, src_VALUE_ADJUSTMENT_STEP = None,
       src_COVERAGE_PERCENTAGE = None, src_GIS_ADJUSTMENT_RATE = None \<rparr> =
     Inl MalformedConfigFile"
proof
  let ?json = "\<lparr> src_BASE_RATE = Some 1000, src_AGE_ADJUSTMENT_RATE = Some 700,
            src_VALUE_ADJUSTMENT_RATE = None, src_VALUE_ADJUSTMENT_STEP = None,
            src_COVERAGE_PERCENTAGE = None, src_GIS_ADJUSTMENT_RATE = None \<rparr>"
  let ?env = "\<lparr> src_BASE_RATE = Some 3000, src_AGE_ADJUSTMENT_RATE = None,
           src_VALUE_ADJUSTMENT_RATE = None, src_VALUE_ADJUSTMENT_STEP = None,
           src_COVERAGE_PERCENTAGE = None, src_GIS_ADJUSTMENT_RATE = None \<rparr>"
  have "FileParsed ?json \<noteq> FileMalformed" by simp
  with loadConfig_precedence [of "FileParsed ?json" readme_config ?env]
  show "\<exists>c. loadConfig readme_config (FileParsed ?json) ?env = Inr c \<and>
       BASE_RATE c = 3000 \<and> AGE_ADJUSTMENT_RATE c = 700 \<and> VALUE_ADJUSTMENT_RATE c = 500 \<and>
       GIS_ADJUSTMENT_RATE c = [(''SP'', 2000)]"
    by (simp add: spec_precedence_def file_source_def readme_config_def) blast
next
  let ?env = "\<lparr> src_BASE_RATE = Some 3000, src_AGE_ADJUSTMENT_RATE = None,
           src_VALUE_ADJUSTMENT_RATE = None, src_VALUE_ADJUSTMENT_STEP = None,
           src_COVERAGE_PERCENTAGE = None, src_GIS_ADJUSTMENT_RATE = None \<rparr>"
  from loadConfig_precedence [of FileMalformed readme_config ?env]
  show "loadConfig readme_config FileMalformed ?env = Inl MalformedConfigFile"
    by simp
qed

section \<open>Properties of the rate and the premium\<close>

lemma mkCarInfo_Inr:
  "mkCarInfo currentYear mk md y v = Inr car \<Longrightarrow>
     mk \<noteq> [] \<and> md \<noteq> [] \<and> 1900 \<le> y \<and> y \<le> currentYear + 1 \<and> 0 < v \<and>
     car = \<lparr> ci_make = mk, ci_model = md, ci_year = y, ci_value = v \<rparr>"
  by (auto simp: mkCarInfo_def split: if_splits)

lemma valueSteps_floor: "0 \<le> v \<Longrightarrow> 0 < step \<Longrightarrow> valueSteps v step = v div step"
  by (simp add: valueSteps_def)

text \<open>
  C1. For a valid \<open>CarInfo\<close> (one that \<open>mkCarInfo\<close> built), an optional address and a
  configuration with a positive value step, \<open>composeRate\<close> returns the base rate, plus the
  age rate times \<open>max 0 (currentYear - year)\<close>, plus the value rate times
  \<open>floor (value / step)\<close>, plus \<open>gisRate\<close> of the address's state when an address is given,
  together with that regional rate or nothing. For a model year that is the current year
  or a later one the age term is 0.
\<close>

theorem composeRate_formula:
  assumes "mkCarInfo currentYear mk md y v = Inr car"
    and "0 < VALUE_ADJUSTMENT_STEP cfg"
  shows "composeRate cfg currentYear car address =
           (BASE_RATE cfg
              + AGE_ADJUSTMENT_RATE cfg * max 0 (currentYear - ci_year car)
              + (ci_value car div VALUE_ADJUSTMENT_STEP cfg) * VALUE_ADJUSTMENT_RATE cfg
              + (case address of None \<Rightarrow> 0 | Some a \<Rightarrow> gisRate cfg (state a)),
            map_option (\<lambda>a. gisRate cfg (state a)) address) \<and>
         (currentYear \<le> ci_year car \<longrightarrow>
            fst (composeRate cfg currentYear car address) =
              BASE_RATE cfg
                + (ci_value car div VALUE_ADJUSTMENT_STEP cfg) * VALUE_ADJUSTMENT_RATE cfg
                + (case address of None \<Rightarrow> 0 | Some a \<Rightarrow> gisRate cfg (state a)))"
proof -
  from assms(1) have "0 \<le> ci_value car"
    by (auto dest: mkCarInfo_Inr)
  with assms(2) have steps:
    "valueSteps (ci_value car) (VALUE_ADJUSTMENT_STEP cfg) =
       ci_value car div VALUE_ADJUSTMENT_STEP cfg"
    by (simp add: valueSteps_floor)
  show ?thesis
    by (cases address) (simp_all add: composeRate_def Let_def steps)
qed

theorem composeRate_formula_witness:
  "composeRate readme_config 2026
     \<lparr> ci_make = ''Fiat'', ci_model = ''Uno'', ci_year = 2021, ci_value = 5000000 \<rparr> None =
     (5000, None) \<and>
   composeRate readme_config 2026
     \<lparr> ci_make = ''Fiat'', ci_model = ''Uno'', ci_year = 2021, ci_value = 5000000 \<rparr>
     (Some \<lparr> street = ''Avenida Paulista'', number = ''1000'', complement = None,
             neighborhood = ''Bela Vista'', city = ''Sao Paulo'', state = ''SP'',
             postal_code = ''01310100'', country = ''BR'' \<rparr>) =
     (7000, Some 2000) \<and>
   fst (composeRate readme_config 2026
     \<lparr> ci_make = ''Fiat'', ci_model = ''Uno'', ci_year = 2027, ci_value = 5999999 \<rparr> None) =
     2500"
proof -
  have step: "0 < VALUE_ADJUSTMENT_STEP readme_config"
    by (simp add: readme_config_def)
  let ?car = "\<lparr> ci_make = ''Fiat'', ci_model = ''Uno'', ci_year = 2021, ci_value = 5000000 \<rparr>"
  let ?new = "\<lparr> ci_make = ''Fiat'', ci_model = ''Uno'', ci_year = 2027, ci_value = 5999999 \<rparr>"
  let ?sp = "\<lparr> street = ''Avenida Paulista'', number = ''1000'', complement = None,
             neighborhood = ''Bela Vista'', city = ''Sao Paulo'', state = ''SP'',
             postal_code = ''01310100'', country = ''BR'' \<rparr>"
  have car: "mkCarInfo 2026 ''Fiat'' ''Uno'' 2021 5000000 = Inr ?car"
    and new: "mkCarInfo 2026 ''Fiat'' ''Uno'' 2027 5999999 = Inr ?new"
    by (simp_all add: mkCarInfo_def)
  from composeRate_formula [OF car step, of None]
  have a: "composeRate readme_config 2026 ?car None = (5000, None)"
    by (simp add: readme_config_def)
  from composeRate_formula [OF car step, of "Some ?sp"]
  have b: "composeRate readme_config 2026 ?car (Some ?sp) = (7000, Some 2000)"
    by (simp add: readme_config_def gisRate_def)
  from composeRate_formula [OF new step, of None]
  have c: "fst (composeRate readme_config 2026 ?new None) = 2500"
    by (simp add: readme_config_def)
  from a b c show ?thesis by simp
qed

lemma round_half_up_div_mono:
  "0 < d \<Longrightarrow> n1 \<le> n2 \<Longrightarrow> round_half_up_div n1 d \<le> round_half_up_div n2 d"
  by (simp add: round_half_up_div_def zdiv_mono1)

lemma round_half_up_div_shift:
  assumes "0 < d"
  shows "round_half_up_div (n + k * d) d = round_half_up_div n d + k"
proof -
  have e: "2 * (n + k * d) + d = (2 * n + d) + k * (2 * d)"
    by (simp add: algebra_simps)
  from assms have "2 * d \<noteq> 0" by simp
  then have "((2 * n + d) + k * (2 * d)) div (2 * d) = k + (2 * n + d) div (2 * d)"
    by (rule div_mult_self1)
  then show ?thesis
    unfolding round_half_up_div_def e by linarith
qed

lemma money_times_mono_rate:
  "0 \<le> m \<Longrightarrow> r1 \<le> r2 \<Longrightarrow> money_times m r1 \<le> money_times m r2"
  by (simp add: money_times_def round_half_up_div_mono mult_left_mono)

text \<open>
  What is left of a base premium once the deductible is taken off grows with the base
  premium, rounding included: the rounded deductible grows by at most the growth of the
  base premium, since the percentage is at most 1.
\<close>

lemma net_of_deductible_mono:
  assumes "0 \<le> ded" "ded \<le> 100000" "b1 \<le> b2"
  shows "b1 - money_times b1 ded \<le> b2 - money_times b2 ded"
proof -
  have "(b2 - b1) * ded \<le> (b2 - b1) * 100000"
    using assms by (intro mult_left_mono) simp_all
  then have "b2 * ded \<le> b1 * ded + (b2 - b1) * 100000"
    by (simp add: algebra_simps)
  then have "money_times b2 ded \<le> round_half_up_div (b1 * ded + (b2 - b1) * 100000) 100000"
    by (simp add: money_times_def round_half_up_div_mono)
  also have "\<dots> = money_times b1 ded + (b2 - b1)"
    unfolding money_times_def by (rule round_half_up_div_shift) simp
  finally show ?thesis by simp
qed

lemma valueSteps_mono:
  assumes "0 < step" "v1 \<le> v2"
  shows "valueSteps v1 step \<le> valueSteps v2 step"
proof -
  consider "0 \<le> v1" | "v1 < 0" "0 \<le> v2" | "v2 < 0" using assms by linarith
  then show ?thesis
  proof cases
    case 1
    with assms show ?thesis by (simp add: valueSteps_def zdiv_mono1)
  next
    case 2
    with assms have "valueSteps v1 step \<le> 0" "0 \<le> valueSteps v2 step"
      by (simp_all add: valueSteps_def pos_imp_zdiv_nonneg_iff)
    then show ?thesis by simp
  next
    case 3
    with assms have "(- v2) div step \<le> (- v1) div step"
      by (intro zdiv_mono1) simp_all
    with 3 assms show ?thesis by (simp add: valueSteps_def)
  qed
qed

lemma calculatePremium_premium:
  "calculatedPremium (calculatePremium cfg y car ded fee a) =
     money_times (ci_value car) (fst (composeRate cfg y car a))
       - money_times (money_times (ci_value car) (fst (composeRate cfg y car a))) ded + fee"
  by (simp add: calculatePremium_def Let_def split: prod.splits)

text \<open>
  C6. For a positive step the number of value steps does not decrease when the value
  grows. For a fixed car value (not negative), a fixed deductible percentage in \<open>[0, 1]\<close>
  and a fixed broker fee, the calculated premium does not decrease when the composed rate
  grows, the rounding to cents included.
\<close>

theorem valueSteps_and_premium_monotone:
  "(0 < step \<and> v1 \<le> v2 \<longrightarrow> valueSteps v1 step \<le> valueSteps v2 step) \<and>
   (ci_value car1 = ci_value car2 \<and> 0 \<le> ci_value car1 \<and>
    0 \<le> ded \<and> ded \<le> 100000 \<and>
    fst (composeRate cfg1 y1 car1 a1) \<le> fst (composeRate cfg2 y2 car2 a2) \<longrightarrow>
      calculatedPremium (calculatePremium cfg1 y1 car1 ded fee a1) \<le>
      calculatedPremium (calculatePremium cfg2 y2 car2 ded fee a2))"
proof (intro conjI impI)
  assume "0 < step \<and> v1 \<le> v2"
  then show "valueSteps v1 step \<le> valueSteps v2 step"
    by (simp add: valueSteps_mono)
next
  let ?r1 = "fst (composeRate cfg1 y1 car1 a1)" and ?r2 = "fst (composeRate cfg2 y2 car2 a2)"
  assume h: "ci_value car1 = ci_value car2 \<and> 0 \<le> ci_value car1 \<and>
    0 \<le> ded \<and> ded \<le> 100000 \<and> ?r1 \<le> ?r2"
  then have "money_times (ci_value car1) ?r1 \<le> money_times (ci_value car2) ?r2"
    by (simp add: money_times_mono_rate)
  with h have "money_times (ci_value car1) ?r1 - money_times (money_times (ci_value car1) ?r1) ded
      \<le> money_times (ci_value car2) ?r2 - money_times (money_times (ci_value car2) ?r2) ded"
    by (intro net_of_deductible_mono) simp_all
  then show "calculatedPremium (calculatePremium cfg1 y1 car1 ded fee a1) \<le>
      calculatedPremium (calculatePremium cfg2 y2 car2 ded fee a2)"
    by (simp add: calculatePremium_premium)
qed

theorem valueSteps_and_premium_monotone_witness:
  "valueSteps 4999999 1000000 = 4 \<and> valueSteps 5000000 1000000 = 5 \<and>
   valueSteps 4999999 1000000 \<le> valueSteps 5000000 1000000 \<and>
   calculatedPremium (calculatePremium readme_config 2026
     \<lparr> ci_make = ''Fiat'', ci_model = ''Uno'', ci_year = 2021, ci_value = 5000000 \<rparr>
     10000 10000 None) = 235000 \<and>
   calculatedPremium (calculatePremium readme_config 2026
     \<lparr> ci_make = ''Fiat'', ci_model = ''Uno'', ci_year = 2021, ci_value = 5000000 \<rparr>
     10000 10000
     (Some \<lparr> street = ''Avenida Paulista'', number = ''1000'', complement = None,
             neighborhood = ''Bela Vista'', city = ''Sao Paulo'', state = ''SP'',
             postal_code = ''01310100'', country = ''BR'' \<rparr>)) = 325000 \<and>
   calculatedPremium (calculatePremium readme_config 2026
     \<lparr> ci_make = ''Fiat'', ci_model = ''Uno'', ci_year = 2021, ci_value = 5000000 \<rparr>
     10000 10000 None) \<le>
   calculatedPremium (calculatePremium readme_config 2026
     \<lparr> ci_make = ''Fiat'', ci_model = ''Uno'', ci_year = 2021, ci_value = 5000000 \<rparr>
     10000 10000
     (Some \<lparr> street = ''Avenida Paulista'', number = ''1000'', complement = None,
             neighborhood = ''Bela Vista'', city = ''Sao Paulo'', state = ''SP'',
             postal_code = ''01310100'', country = ''BR'' \<rparr>))"
proof -
  let ?car = "\<lparr> ci_make = ''Fiat'', ci_model = ''Uno'', ci_year = 2021, ci_value = 5000000 \<rparr>"
  let ?sp = "\<lparr> street = ''Avenida Paulista'', number = ''1000'', complement = None,
             neighborhood = ''Bela Vista'', city = ''Sao Paulo'', state = ''SP'',
             postal_code = ''01310100'', country = ''BR'' \<rparr>"
  have r1: "composeRate readme_config 2026 ?car None = (5000, None)"
    and r2: "composeRate readme_config 2026 ?car (Some ?sp) = (7000, Some 2000)"
    by (simp_all add: composeRate_def readme_config_def valueSteps_def gisRate_def)
  note inst = valueSteps_and_premium_monotone
    [of 1000000 4999999 5000000 ?car ?car 10000 readme_config 2026 None readme_config 2026
      "Some ?sp" 10000]
  from inst have steps: "valueSteps 4999999 1000000 \<le> valueSteps 5000000 1000000"
    by simp
  from inst r1 r2 have prem:
    "calculatedPremium (calculatePremium readme_config 2026 ?car 10000 10000 None) \<le>
     calculatedPremium (calculatePremium readme_config 2026 ?car 10000 10000 (Some ?sp))"
    by simp
  have vals: "valueSteps 4999999 1000000 = 4" "valueSteps 5000000 1000000 = 5"
    by (simp_all add: valueSteps_def)
  have p1: "calculatedPremium (calculatePremium readme_config 2026 ?car 10000 10000 None) = 235000"
    by (simp add: calculatePremium_def r1 money_times_def round_half_up_div_def)
  have p2: "calculatedPremium (calculatePremium readme_config 2026 ?car 10000 10000 (Some ?sp)) =
      325000"
    by (simp add: calculatePremium_def r2 money_times_def round_half_up_div_def)
  from steps prem vals p1 p2 show ?thesis by blast
qed

end
